theory Spec2Isabelle
  imports Main
begin

section \<open>The two ExtSupport.PHP5 headers as data\<close>

text \<open>
  The sources are two C headers, \<^verbatim>\<open>ext/standard/pack.h\<close> and
  \<^verbatim>\<open>main/php_open_temporary_file.h\<close>.  Neither has a function body, so what is
  embedded is their text after comment removal: a header is the list of its
  preprocessing directives and file-scope declarations, in source order.
  The macros \<^verbatim>\<open>PHP_MINIT_FUNCTION\<close>, \<^verbatim>\<open>PHP_FUNCTION\<close>, \<^verbatim>\<open>BEGIN_EXTERN_C\<close>,
  \<^verbatim>\<open>END_EXTERN_C\<close>, \<^verbatim>\<open>PHPAPI\<close> and \<^verbatim>\<open>TSRMLS_DC\<close> are defined in neither file;
  their invocations are kept unexpanded, as the headers write them.
\<close>

subsection \<open>C types and prototypes\<close>

datatype base_type = TVoid | TInt | TChar | TNamed string

record ctype =
  is_const :: bool
  base :: base_type
  ptr_depth :: nat

text \<open>
  A prototype as the header writes it: an optional export macro in front, the
  return type, the name, the comma-separated parameters, and an optional macro
  that follows the last parameter without a comma (\<^verbatim>\<open>TSRMLS_DC\<close>).  An empty
  parameter list with no such macro is the source's \<^verbatim>\<open>(void)\<close>.
\<close>

record prototype =
  api :: "string option"
  ret :: ctype
  fname :: string
  params :: "(ctype \<times> string) list"
  ctx_macro :: "string option"

subsection \<open>File-scope items\<close>

text \<open>
  The constructors cover what a C header can hold at file scope; the two
  headers use only some of them.  \<open>MacroInvoke\<close> is a macro call on a line of
  its own with no semicolon, \<open>MacroDecl\<close> a macro call ended by a semicolon,
  \<open>FunDef\<close> a function with its body (the tokens of its statements),
  \<open>TypeDef\<close> a typedef, struct, union or enum definition and \<open>VarDef\<close> an
  object definition.
\<close>

datatype item =
    Ifndef string
  | Define string
  | Undef string
  | Endif
  | MacroInvoke string "string list"
  | MacroDecl string "string list"
  | Proto prototype
  | FunDef prototype "string list"
  | TypeDef string "string list"
  | VarDef ctype string

type_synonym header = "item list"

subsection \<open>pack.h, lines 29 to 36\<close>

definition pack_h :: header where
  "pack_h =
    [ Ifndef ''PACK_H'',
      Define ''PACK_H'',
      MacroDecl ''PHP_MINIT_FUNCTION'' [''pack''],
      MacroDecl ''PHP_FUNCTION'' [''pack''],
      MacroDecl ''PHP_FUNCTION'' [''unpack''],
      Endif ]"

subsection \<open>php\_open\_temporary\_file.h, lines 28 to 39\<close>

definition const_char_ptr :: ctype where
  "const_char_ptr = \<lparr> is_const = True, base = TChar, ptr_depth = 1 \<rparr>"

definition char_ptr_ptr :: ctype where
  "char_ptr_ptr = \<lparr> is_const = False, base = TChar, ptr_depth = 2 \<rparr>"

definition file_ptr :: ctype where
  "file_ptr = \<lparr> is_const = False, base = TNamed ''FILE'', ptr_depth = 1 \<rparr>"

definition int_type :: ctype where
  "int_type = \<lparr> is_const = False, base = TInt, ptr_depth = 0 \<rparr>"

definition void_type :: ctype where
  "void_type = \<lparr> is_const = False, base = TVoid, ptr_depth = 0 \<rparr>"

definition zend_bool :: ctype where
  "zend_bool = \<lparr> is_const = False, base = TNamed ''zend_bool'', ptr_depth = 0 \<rparr>"

definition php_open_temporary_file :: prototype where
  "php_open_temporary_file =
    \<lparr> api = Some ''PHPAPI'', ret = file_ptr, fname = ''php_open_temporary_file'',
      params = [(const_char_ptr, ''dir''), (const_char_ptr, ''pfx''),
                (char_ptr_ptr, ''opened_path_p'')],
      ctx_macro = Some ''TSRMLS_DC'' \<rparr>"

definition php_open_temporary_fd_ex :: prototype where
  "php_open_temporary_fd_ex =
    \<lparr> api = Some ''PHPAPI'', ret = int_type, fname = ''php_open_temporary_fd_ex'',
      params = [(const_char_ptr, ''dir''), (const_char_ptr, ''pfx''),
                (char_ptr_ptr, ''opened_path_p''), (zend_bool, ''open_basedir_check'')],
      ctx_macro = Some ''TSRMLS_DC'' \<rparr>"

definition php_open_temporary_fd :: prototype where
  "php_open_temporary_fd =
    \<lparr> api = Some ''PHPAPI'', ret = int_type, fname = ''php_open_temporary_fd'',
      params = [(const_char_ptr, ''dir''), (const_char_ptr, ''pfx''),
                (char_ptr_ptr, ''opened_path_p'')],
      ctx_macro = Some ''TSRMLS_DC'' \<rparr>"

definition php_get_temporary_directory :: prototype where
  "php_get_temporary_directory =
    \<lparr> api = Some ''PHPAPI'', ret = const_char_ptr, fname = ''php_get_temporary_directory'',
      params = [], ctx_macro = None \<rparr>"

definition php_shutdown_temporary_directory :: prototype where
  "php_shutdown_temporary_directory =
    \<lparr> api = Some ''PHPAPI'', ret = void_type, fname = ''php_shutdown_temporary_directory'',
      params = [], ctx_macro = None \<rparr>"

definition php_open_temporary_file_h :: header where
  "php_open_temporary_file_h =
    [ Ifndef ''PHP_OPEN_TEMPORARY_FILE_H'',
      Define ''PHP_OPEN_TEMPORARY_FILE_H'',
      MacroInvoke ''BEGIN_EXTERN_C'' [],
      Proto php_open_temporary_file,
      Proto php_open_temporary_fd_ex,
      Proto php_open_temporary_fd,
      Proto php_get_temporary_directory,
      Proto php_shutdown_temporary_directory,
      MacroInvoke ''END_EXTERN_C'' [],
      Endif ]"

subsection \<open>Printing the model back to source text\<close>

fun base_name :: "base_type \<Rightarrow> string" where
  "base_name TVoid = ''void''"
| "base_name TInt = ''int''"
| "base_name TChar = ''char''"
| "base_name (TNamed n) = n"

definition render_declarator :: "ctype \<Rightarrow> string \<Rightarrow> string" where
  "render_declarator t n =
    (if is_const t then ''const '' else '''') @ base_name (base t) @ '' ''
      @ replicate (ptr_depth t) (CHR ''*'') @ n"

fun comma_sep :: "string list \<Rightarrow> string" where
  "comma_sep [] = ''''"
| "comma_sep [x] = x"
| "comma_sep (x # y # ys) = x @ '', '' @ comma_sep (y # ys)"

definition render_params :: "(ctype \<times> string) list \<Rightarrow> string option \<Rightarrow> string" where
  "render_params ps m =
    (if ps = [] \<and> m = None then ''void''
     else comma_sep (map (\<lambda>(t, n). render_declarator t n) ps)
            @ (case m of None \<Rightarrow> '''' | Some c \<Rightarrow> '' '' @ c))"

definition render_prototype :: "prototype \<Rightarrow> string" where
  "render_prototype p =
    (case api p of None \<Rightarrow> '''' | Some a \<Rightarrow> a @ '' '')
      @ render_declarator (ret p) (fname p)
      @ ''('' @ render_params (params p) (ctx_macro p) @ '')''"

fun render_item :: "item \<Rightarrow> string" where
  "render_item (Ifndef m) = ''#ifndef '' @ m"
| "render_item (Define m) = ''#define '' @ m"
| "render_item (Undef m) = ''#undef '' @ m"
| "render_item Endif = ''#endif''"
| "render_item (MacroInvoke m as) = m @ ''('' @ comma_sep as @ '')''"
| "render_item (MacroDecl m as) = m @ ''('' @ comma_sep as @ '');''"
| "render_item (Proto p) = render_prototype p @ '';''"
| "render_item (FunDef p b) = render_prototype p @ '' { '' @ concat b @ '' }''"
| "render_item (TypeDef n b) = ''typedef '' @ concat b @ '' '' @ n @ '';''"
| "render_item (VarDef t n) = render_declarator t n @ '';''"

subsection \<open>Kinds of items\<close>

text \<open>
  Modelled from the spec: the macros \<^verbatim>\<open>PHP_MINIT_FUNCTION\<close> and \<^verbatim>\<open>PHP_FUNCTION\<close>
  have no definition in the two files.  The spec reads their three uses as function
  declarations ("module-init and two callable entry points following PHP's
  extension calling convention"), so a semicolon-ended call of one of them
  counts as a function declaration.
\<close>

definition function_macros :: "string list" where
  "function_macros = [''PHP_MINIT_FUNCTION'', ''PHP_FUNCTION'']"

text \<open>
  Modelled from the spec: \<^verbatim>\<open>BEGIN_EXTERN_C\<close> and \<^verbatim>\<open>END_EXTERN_C\<close> have no definition
  in the two files either.  They are read as the opening and the closing of a
  C-linkage block, which is what the spec's "C-linkage function signatures" rests on.
\<close>

definition begin_extern_c :: item where
  "begin_extern_c = MacroInvoke ''BEGIN_EXTERN_C'' []"

definition end_extern_c :: item where
  "end_extern_c = MacroInvoke ''END_EXTERN_C'' []"

datatype kind =
    Directive
  | LinkageDelimiter
  | FunctionDeclaration
  | FunctionDefinition
  | TypeDefinition
  | ObjectDefinition
  | OtherMacroUse

fun kind_of :: "item \<Rightarrow> kind" where
  "kind_of (Ifndef m) = Directive"
| "kind_of (Define m) = Directive"
| "kind_of (Undef m) = Directive"
| "kind_of Endif = Directive"
| "kind_of (MacroInvoke m as) =
    (if MacroInvoke m as = begin_extern_c \<or> MacroInvoke m as = end_extern_c
     then LinkageDelimiter else OtherMacroUse)"
| "kind_of (MacroDecl m as) =
    (if m \<in> set function_macros then FunctionDeclaration else OtherMacroUse)"
| "kind_of (Proto p) = FunctionDeclaration"
| "kind_of (FunDef p b) = FunctionDefinition"
| "kind_of (TypeDef n b) = TypeDefinition"
| "kind_of (VarDef t n) = ObjectDefinition"

definition function_declarations :: "header \<Rightarrow> item list" where
  "function_declarations h = filter (\<lambda>i. kind_of i = FunctionDeclaration) h"

text \<open>What a header makes visible: every item that is neither a directive nor a linkage delimiter.\<close>

definition visible_surface :: "header \<Rightarrow> item list" where
  "visible_surface h = filter (\<lambda>i. kind_of i \<noteq> Directive \<and> kind_of i \<noteq> LinkageDelimiter) h"

fun prototypes :: "header \<Rightarrow> prototype list" where
  "prototypes [] = []"
| "prototypes (Proto p # is) = p # prototypes is"
| "prototypes (FunDef p b # is) = p # prototypes is"
| "prototypes (i # is) = prototypes is"

text \<open>The statement tokens of a header: those of its function bodies, the only place C allows them.\<close>

fun statements_of :: "item \<Rightarrow> string list" where
  "statements_of (FunDef p b) = b"
| "statements_of i = []"

definition statements :: "header \<Rightarrow> string list" where
  "statements h = concat (map statements_of h)"

subsection \<open>Names used and names defined\<close>

definition prototype_macros :: "prototype \<Rightarrow> string list" where
  "prototype_macros p =
    (case api p of None \<Rightarrow> [] | Some a \<Rightarrow> [a]) @ (case ctx_macro p of None \<Rightarrow> [] | Some c \<Rightarrow> [c])"

fun macros_used :: "item \<Rightarrow> string list" where
  "macros_used (Ifndef m) = [m]"
| "macros_used (Define m) = [m]"
| "macros_used (Undef m) = [m]"
| "macros_used Endif = []"
| "macros_used (MacroInvoke m as) = [m]"
| "macros_used (MacroDecl m as) = [m]"
| "macros_used (Proto p) = prototype_macros p"
| "macros_used (FunDef p b) = prototype_macros p"
| "macros_used (TypeDef n b) = []"
| "macros_used (VarDef t n) = []"

text \<open>
  Modelled from the spec: the thread-context macros belong to TSRM, "PHP's Thread
  Safe Resource Manager"; their definitions are in neither file.  A macro name is
  taken as concurrency-related when it carries the \<^verbatim>\<open>TSRM\<close> prefix.
\<close>

definition is_thread_macro :: "string \<Rightarrow> bool" where
  "is_thread_macro m = (take 4 m = ''TSRM'')"

fun named_type :: "ctype \<Rightarrow> string list" where
  "named_type t = (case base t of TNamed n \<Rightarrow> [n] | _ \<Rightarrow> [])"

definition prototype_named_types :: "prototype \<Rightarrow> string list" where
  "prototype_named_types p = named_type (ret p) @ concat (map (named_type \<circ> fst) (params p))"

definition named_types :: "header \<Rightarrow> string list" where
  "named_types h = remdups (concat (map prototype_named_types (prototypes h)))"

fun names_defined_by :: "item \<Rightarrow> string list" where
  "names_defined_by (Define m) = [m]"
| "names_defined_by (TypeDef n b) = [n]"
| "names_defined_by (VarDef t n) = [n]"
| "names_defined_by (FunDef p b) = [fname p]"
| "names_defined_by i = []"

definition defined_names :: "header \<Rightarrow> string list" where
  "defined_names h = concat (map names_defined_by h)"

subsection \<open>Linkage blocks\<close>

text \<open>
  Each function declaration of a header, paired with whether it stands inside a
  \<^verbatim>\<open>BEGIN_EXTERN_C()\<close> ... \<^verbatim>\<open>END_EXTERN_C()\<close> block of that header.  The number is
  the depth of open blocks.
\<close>

fun linkage_scan :: "nat \<Rightarrow> header \<Rightarrow> (item \<times> bool) list" where
  "linkage_scan d [] = []"
| "linkage_scan d (i # is) =
    (if i = begin_extern_c then linkage_scan (Suc d) is
     else if i = end_extern_c then linkage_scan (d - 1) is
     else if kind_of i = FunctionDeclaration then (i, 0 < d) # linkage_scan d is
     else linkage_scan d is)"

definition in_extern_c_block :: "header \<Rightarrow> item \<Rightarrow> bool" where
  "in_extern_c_block h i = ((i, True) \<in> set (linkage_scan 0 h))"

subsection \<open>What a prototype lets the callee hand back\<close>

text \<open>
  Through a declared C interface the callee can report to its caller by the
  return value, when the return type is not \<^verbatim>\<open>void\<close>, and by writing through a
  parameter that points to non-const data.
\<close>

datatype channel = ReturnValue ctype | OutParam string

definition is_void :: "ctype \<Rightarrow> bool" where
  "is_void t = (base t = TVoid \<and> ptr_depth t = 0)"

definition writable_through :: "ctype \<Rightarrow> bool" where
  "writable_through t = (0 < ptr_depth t \<and> \<not> is_const t)"

definition report_channels :: "prototype \<Rightarrow> channel list" where
  "report_channels p =
    (if is_void (ret p) then [] else [ReturnValue (ret p)])
      @ map (OutParam \<circ> snd) (filter (writable_through \<circ> fst) (params p))"

subsection \<open>Conditional inclusion\<close>

text \<open>
  The part of the C preprocessor the headers use.  The state is the set of
  defined macro names and the items passed on to the compiler so far.  The
  stack has one flag for each open \<^verbatim>\<open>#ifndef\<close>: whether the text inside is kept.
  An \<^verbatim>\<open>#endif\<close> with nothing open and an \<^verbatim>\<open>#ifndef\<close> left open at the end of the
  file are errors.  Macro calls are passed on as they are: no expansion
  produces a directive.
\<close>

datatype pp_error = EndifWithoutIf | UnterminatedConditional

record pp_state =
  macros :: "string set"
  emitted :: "item list"

fun active :: "bool list \<Rightarrow> bool" where
  "active [] = True"
| "active (a # st) = a"

fun preprocess :: "bool list \<Rightarrow> header \<Rightarrow> pp_state \<Rightarrow> pp_error + pp_state" where
  "preprocess st [] s = (if st = [] then Inr s else Inl UnterminatedConditional)"
| "preprocess st (Ifndef m # is) s = preprocess ((active st \<and> m \<notin> macros s) # st) is s"
| "preprocess st (Endif # is) s =
    (case st of [] \<Rightarrow> Inl EndifWithoutIf | a # st' \<Rightarrow> preprocess st' is s)"
| "preprocess st (Define m # is) s =
    preprocess st is (if active st then s\<lparr>macros := insert m (macros s)\<rparr> else s)"
| "preprocess st (Undef m # is) s =
    preprocess st is (if active st then s\<lparr>macros := macros s - {m}\<rparr> else s)"
| "preprocess st (i # is) s =
    preprocess st is (if active st then s\<lparr>emitted := emitted s @ [i]\<rparr> else s)"

definition include_header :: "header \<Rightarrow> pp_state \<Rightarrow> pp_error + pp_state" where
  "include_header h s = preprocess [] h s"

text \<open>A header wrapped in the guard \<open>g\<close>: it opens with \<^verbatim>\<open>#ifndef g\<close> and \<^verbatim>\<open>#define g\<close>,
  closes with \<^verbatim>\<open>#endif\<close>, and has no directive in between.\<close>

fun guarded :: "string \<Rightarrow> header \<Rightarrow> bool" where
  "guarded g (Ifndef a # Define b # rest) =
    (a = g \<and> b = g \<and> rest \<noteq> [] \<and> last rest = Endif
      \<and> list_all (\<lambda>i. kind_of i \<noteq> Directive) (butlast rest))"
| "guarded g h = False"

section \<open>Faithfulness of the model\<close>

lemmas ctype_defs =
  const_char_ptr_def char_ptr_ptr_def file_ptr_def int_type_def void_type_def zend_bool_def

lemmas prototype_defs =
  php_open_temporary_file_def php_open_temporary_fd_ex_def php_open_temporary_fd_def
  php_get_temporary_directory_def php_shutdown_temporary_directory_def

lemmas header_defs = pack_h_def php_open_temporary_file_h_def

lemmas kind_defs = function_macros_def begin_extern_c_def end_extern_c_def

text \<open>
  Printed back, the two models are the non-blank lines of the headers from the
  include guard on (the comment after \<^verbatim>\<open>#endif\<close> dropped).
\<close>

lemma pack_h_text:
  "map render_item pack_h =
    [ ''#ifndef PACK_H'',
      ''#define PACK_H'',
      ''PHP_MINIT_FUNCTION(pack);'',
      ''PHP_FUNCTION(pack);'',
      ''PHP_FUNCTION(unpack);'',
      ''#endif'' ]"
  by (simp add: pack_h_def)

lemma php_open_temporary_file_h_text:
  "map render_item php_open_temporary_file_h =
    [ ''#ifndef PHP_OPEN_TEMPORARY_FILE_H'',
      ''#define PHP_OPEN_TEMPORARY_FILE_H'',
      ''BEGIN_EXTERN_C()'',
      ''PHPAPI FILE *php_open_temporary_file(const char *dir, const char *pfx, char **opened_path_p TSRMLS_DC);'',
      ''PHPAPI int php_open_temporary_fd_ex(const char *dir, const char *pfx, char **opened_path_p, zend_bool open_basedir_check TSRMLS_DC);'',
      ''PHPAPI int php_open_temporary_fd(const char *dir, const char *pfx, char **opened_path_p TSRMLS_DC);'',
      ''PHPAPI const char *php_get_temporary_directory(void);'',
      ''PHPAPI void php_shutdown_temporary_directory(void);'',
      ''END_EXTERN_C()'',
      ''#endif'' ]"
  by (simp add: php_open_temporary_file_h_def prototype_defs ctype_defs
      render_prototype_def render_params_def render_declarator_def numeral_2_eq_2)

section \<open>The declared surface\<close>

text \<open>
  C1. The visible surface of the two headers is exactly eight function
  declarations: \<^verbatim>\<open>PHP_MINIT_FUNCTION(pack)\<close>, \<^verbatim>\<open>PHP_FUNCTION(pack)\<close> and
  \<^verbatim>\<open>PHP_FUNCTION(unpack)\<close> in pack.h, and the five prototypes
  \<^verbatim>\<open>php_open_temporary_file\<close>, \<^verbatim>\<open>php_open_temporary_fd_ex\<close>, \<^verbatim>\<open>php_open_temporary_fd\<close>,
  \<^verbatim>\<open>php_get_temporary_directory\<close> and \<^verbatim>\<open>php_shutdown_temporary_directory\<close> in
  php_open_temporary_file.h.  Apart from directives and linkage delimiters
  there is nothing else in either file.
\<close>

theorem declared_surface:
  "function_declarations pack_h =
     [MacroDecl ''PHP_MINIT_FUNCTION'' [''pack''], MacroDecl ''PHP_FUNCTION'' [''pack''],
      MacroDecl ''PHP_FUNCTION'' [''unpack'']]
   \<and> function_declarations php_open_temporary_file_h =
     [Proto php_open_temporary_file, Proto php_open_temporary_fd_ex, Proto php_open_temporary_fd,
      Proto php_get_temporary_directory, Proto php_shutdown_temporary_directory]
   \<and> map fname (prototypes php_open_temporary_file_h) =
     [''php_open_temporary_file'', ''php_open_temporary_fd_ex'', ''php_open_temporary_fd'',
      ''php_get_temporary_directory'', ''php_shutdown_temporary_directory'']
   \<and> length (function_declarations pack_h @ function_declarations php_open_temporary_file_h) = 8
   \<and> visible_surface pack_h = function_declarations pack_h
   \<and> visible_surface php_open_temporary_file_h = function_declarations php_open_temporary_file_h"
  by (simp add: function_declarations_def visible_surface_def header_defs kind_defs prototype_defs)

text \<open>
  C2. Both files are declarations only.  Item by item, each header is its
  include guard around function declarations (in php_open_temporary_file.h
  between the two linkage delimiters); there is no function definition, no
  statement token, no type definition and no object definition, hence nothing
  that could run.
\<close>

theorem declarations_only:
  "map kind_of pack_h =
     [Directive, Directive, FunctionDeclaration, FunctionDeclaration, FunctionDeclaration, Directive]
   \<and> map kind_of php_open_temporary_file_h =
     [Directive, Directive, LinkageDelimiter, FunctionDeclaration, FunctionDeclaration,
      FunctionDeclaration, FunctionDeclaration, FunctionDeclaration, LinkageDelimiter, Directive]
   \<and> guarded ''PACK_H'' pack_h
   \<and> guarded ''PHP_OPEN_TEMPORARY_FILE_H'' php_open_temporary_file_h
   \<and> statements pack_h = [] \<and> statements php_open_temporary_file_h = []
   \<and> filter (\<lambda>i. kind_of i = FunctionDefinition \<or> kind_of i = TypeDefinition
                 \<or> kind_of i = ObjectDefinition) (pack_h @ php_open_temporary_file_h) = []"
  by (simp add: statements_def header_defs kind_defs)

section \<open>Thread context and the temp-directory pair\<close>

text \<open>
  C4. The only thread-related macro used in either header is \<^verbatim>\<open>TSRMLS_DC\<close>.  It
  occurs three times, once in each of \<^verbatim>\<open>php_open_temporary_file\<close>,
  \<^verbatim>\<open>php_open_temporary_fd_ex\<close> and \<^verbatim>\<open>php_open_temporary_fd\<close>; pack.h does not use
  it, and \<^verbatim>\<open>php_get_temporary_directory\<close> and \<^verbatim>\<open>php_shutdown_temporary_directory\<close>
  have neither a thread-context macro nor any parameter.
\<close>

theorem thread_context_macro:
  "filter is_thread_macro (concat (map macros_used (pack_h @ php_open_temporary_file_h)))
     = [''TSRMLS_DC'', ''TSRMLS_DC'', ''TSRMLS_DC'']
   \<and> map fname (filter (\<lambda>p. ctx_macro p = Some ''TSRMLS_DC'') (prototypes php_open_temporary_file_h))
     = [''php_open_temporary_file'', ''php_open_temporary_fd_ex'', ''php_open_temporary_fd'']
   \<and> concat (map macros_used pack_h) =
       [''PACK_H'', ''PACK_H'', ''PHP_MINIT_FUNCTION'', ''PHP_FUNCTION'', ''PHP_FUNCTION'']
   \<and> ctx_macro php_get_temporary_directory = None \<and> params php_get_temporary_directory = []
   \<and> ctx_macro php_shutdown_temporary_directory = None
   \<and> params php_shutdown_temporary_directory = []"
  by (simp add: header_defs prototype_defs prototype_macros_def is_thread_macro_def)

text \<open>
  C5. The temp-directory interface is the pair \<^verbatim>\<open>php_get_temporary_directory\<close>,
  declared \<^verbatim>\<open>const char *f(void)\<close>, and \<^verbatim>\<open>php_shutdown_temporary_directory\<close>,
  declared \<^verbatim>\<open>void f(void)\<close>; they are the two prototypes of the header that take
  nothing.
\<close>

theorem temporary_directory_interface:
  "ret php_get_temporary_directory = \<lparr> is_const = True, base = TChar, ptr_depth = 1 \<rparr>
   \<and> params php_get_temporary_directory = [] \<and> ctx_macro php_get_temporary_directory = None
   \<and> ret php_shutdown_temporary_directory = \<lparr> is_const = False, base = TVoid, ptr_depth = 0 \<rparr>
   \<and> params php_shutdown_temporary_directory = []
   \<and> ctx_macro php_shutdown_temporary_directory = None
   \<and> render_item (Proto php_get_temporary_directory)
        = ''PHPAPI const char *php_get_temporary_directory(void);''
   \<and> render_item (Proto php_shutdown_temporary_directory)
        = ''PHPAPI void php_shutdown_temporary_directory(void);''
   \<and> filter (\<lambda>p. params p = [] \<and> ctx_macro p = None) (prototypes php_open_temporary_file_h)
        = [php_get_temporary_directory, php_shutdown_temporary_directory]"
  by (simp add: header_defs prototype_defs ctype_defs render_prototype_def render_params_def
      render_declarator_def)

section \<open>Types\<close>

text \<open>
  C6. Neither header defines a type.  The named types the prototypes mention
  are \<^verbatim>\<open>FILE\<close> and \<^verbatim>\<open>zend_bool\<close>; the only names the headers define are their
  two guard macros, so \<^verbatim>\<open>zend_bool\<close>, \<^verbatim>\<open>FILE\<close> and \<^verbatim>\<open>TSRMLS_DC\<close> are used here
  and defined elsewhere.
\<close>

theorem no_own_types:
  "filter (\<lambda>i. kind_of i = TypeDefinition) (pack_h @ php_open_temporary_file_h) = []
   \<and> named_types pack_h = []
   \<and> named_types php_open_temporary_file_h = [''FILE'', ''zend_bool'']
   \<and> defined_names pack_h = [''PACK_H'']
   \<and> defined_names php_open_temporary_file_h = [''PHP_OPEN_TEMPORARY_FILE_H'']
   \<and> filter (\<lambda>n. n \<in> set (defined_names pack_h @ defined_names php_open_temporary_file_h))
        [''zend_bool'', ''FILE'', ''TSRMLS_DC''] = []"
  by (simp add: header_defs prototype_defs ctype_defs kind_defs named_types_def
      prototype_named_types_def defined_names_def)

section \<open>Linkage\<close>

text \<open>
  C7 as stated says that every declaration of the two headers carries a
  C-linkage specification, those of pack.h included.  pack.h has no linkage
  block: \<^verbatim>\<open>PHP_FUNCTION(pack)\<close> stands in none.
\<close>

theorem pack_h_not_in_extern_c:
  "\<not> in_extern_c_block pack_h (MacroDecl ''PHP_FUNCTION'' [''pack''])"
  by (simp add: in_extern_c_block_def header_defs kind_defs)

text \<open>
  C7, amended.  The five prototypes of php_open_temporary_file.h all stand
  inside its \<^verbatim>\<open>BEGIN_EXTERN_C()\<close> ... \<^verbatim>\<open>END_EXTERN_C()\<close> block; the three macro
  declarations of pack.h stand in no linkage block of that header.
\<close>

theorem extern_c_coverage:
  "linkage_scan 0 php_open_temporary_file_h =
     [(Proto php_open_temporary_file, True), (Proto php_open_temporary_fd_ex, True),
      (Proto php_open_temporary_fd, True), (Proto php_get_temporary_directory, True),
      (Proto php_shutdown_temporary_directory, True)]
   \<and> linkage_scan 0 pack_h =
     [(MacroDecl ''PHP_MINIT_FUNCTION'' [''pack''], False),
      (MacroDecl ''PHP_FUNCTION'' [''pack''], False),
      (MacroDecl ''PHP_FUNCTION'' [''unpack''], False)]"
  by (simp add: header_defs kind_defs)

section \<open>The three temp-file signatures\<close>

text \<open>
  C8. The three temp-file prototypes start with the same parameters,
  \<^verbatim>\<open>const char *dir, const char *pfx, char **opened_path_p\<close>.
  \<^verbatim>\<open>php_open_temporary_fd_ex\<close> is \<^verbatim>\<open>php_open_temporary_fd\<close> with one more parameter,
  \<^verbatim>\<open>zend_bool open_basedir_check\<close>, at the end of the list and so before
  \<^verbatim>\<open>TSRMLS_DC\<close>; export macro, \<^verbatim>\<open>int\<close> return type and thread-context macro are the same.
\<close>

theorem fd_ex_extends_fd:
  "params php_open_temporary_file =
      [(const_char_ptr, ''dir''), (const_char_ptr, ''pfx''), (char_ptr_ptr, ''opened_path_p'')]
   \<and> params php_open_temporary_fd = params php_open_temporary_file
   \<and> params php_open_temporary_fd_ex =
        params php_open_temporary_file @ [(zend_bool, ''open_basedir_check'')]
   \<and> php_open_temporary_fd_ex =
       php_open_temporary_fd
         \<lparr> fname := ''php_open_temporary_fd_ex'',
           params := params php_open_temporary_fd @ [(zend_bool, ''open_basedir_check'')] \<rparr>
   \<and> ret php_open_temporary_fd_ex = int_type \<and> ret php_open_temporary_fd = int_type
   \<and> ctx_macro php_open_temporary_fd_ex = Some ''TSRMLS_DC''
   \<and> ctx_macro php_open_temporary_fd = Some ''TSRMLS_DC''"
  by (simp add: prototype_defs)

text \<open>
  What the three prototypes let the callee hand back: the return value
  (\<^verbatim>\<open>FILE *\<close>, \<^verbatim>\<open>int\<close>, \<^verbatim>\<open>int\<close>) and whatever is written through \<^verbatim>\<open>opened_path_p\<close>.
  Which values mean failure is decided by function bodies that are in neither header.
\<close>

lemma opener_channels:
  "report_channels php_open_temporary_file = [ReturnValue file_ptr, OutParam ''opened_path_p'']
   \<and> report_channels php_open_temporary_fd = [ReturnValue int_type, OutParam ''opened_path_p'']
   \<and> report_channels php_open_temporary_fd_ex = [ReturnValue int_type, OutParam ''opened_path_p'']"
  by (simp add: prototype_defs ctype_defs report_channels_def is_void_def writable_through_def)

text \<open>
  C10. \<^verbatim>\<open>php_shutdown_temporary_directory\<close> returns \<^verbatim>\<open>void\<close> and has no parameter,
  so its declaration gives the callee nothing to report through: no return
  value and no parameter to write through.
\<close>

theorem shutdown_reports_nothing:
  "is_void (ret php_shutdown_temporary_directory)
   \<and> params php_shutdown_temporary_directory = []
   \<and> ctx_macro php_shutdown_temporary_directory = None
   \<and> report_channels php_shutdown_temporary_directory = []"
  by (simp add: prototype_defs ctype_defs report_channels_def is_void_def)

section \<open>Include guards\<close>

text \<open>Items that are no directives are passed on, or skipped, as a block.\<close>

lemma preprocess_plain:
  "list_all (\<lambda>i. kind_of i \<noteq> Directive) body \<Longrightarrow>
   preprocess st (body @ rest) s =
     preprocess st rest (if active st then s\<lparr>emitted := emitted s @ body\<rparr> else s)"
proof (induction body arbitrary: s)
  case Nil
  then show ?case by simp
next
  case (Cons i body)
  then have plain: "kind_of i \<noteq> Directive"
    and others: "list_all (\<lambda>i. kind_of i \<noteq> Directive) body"
    by simp_all
  from plain have step: "preprocess st (i # body @ rest) s =
      preprocess st (body @ rest) (if active st then s\<lparr>emitted := emitted s @ [i]\<rparr> else s)"
    by (cases i) simp_all
  show ?case using Cons.IH [OF others] step by simp
qed

lemma guarded_shape:
  assumes "guarded g h"
  obtains body where "h = Ifndef g # Define g # body @ [Endif]"
    and "list_all (\<lambda>i. kind_of i \<noteq> Directive) body"
proof -
  from assms obtain rest where h: "h = Ifndef g # Define g # rest" and ne: "rest \<noteq> []"
    and l: "last rest = Endif" and pl: "list_all (\<lambda>i. kind_of i \<noteq> Directive) (butlast rest)"
    by (cases "(g, h)" rule: guarded.cases) auto
  from ne l have "rest = butlast rest @ [Endif]"
    using append_butlast_last_id by fastforce
  with h pl that show thesis by metis
qed

text \<open>
  Including a guarded header defines the guard and passes the body on exactly
  when the guard was not defined before.
\<close>

lemma include_guarded:
  assumes "guarded g h"
  shows "include_header h s =
    Inr (s\<lparr> macros := insert g (macros s),
            emitted := emitted s @ (if g \<in> macros s then [] else butlast (drop 2 h)) \<rparr>)"
proof -
  from assms obtain body where h: "h = Ifndef g # Define g # body @ [Endif]"
    and pl: "list_all (\<lambda>i. kind_of i \<noteq> Directive) body"
    by (rule guarded_shape)
  show ?thesis
    by (simp add: h include_header_def preprocess_plain [OF pl] insert_absorb)
qed

lemma guarded_pack_h: "guarded ''PACK_H'' pack_h"
  by (simp add: header_defs kind_defs)

lemma guarded_php_open_temporary_file_h:
  "guarded ''PHP_OPEN_TEMPORARY_FILE_H'' php_open_temporary_file_h"
  by (simp add: header_defs kind_defs)

text \<open>The first inclusion into a fresh translation unit does pass the declarations on.\<close>

lemma include_pack_h_fresh:
  "include_header pack_h \<lparr> macros = {}, emitted = [] \<rparr> =
    Inr \<lparr> macros = {''PACK_H''}, emitted = function_declarations pack_h \<rparr>"
  by (simp add: include_guarded [OF guarded_pack_h])
     (simp add: function_declarations_def header_defs kind_defs)

lemma include_php_open_temporary_file_h_fresh:
  "include_header php_open_temporary_file_h \<lparr> macros = {}, emitted = [] \<rparr> =
    Inr \<lparr> macros = {''PHP_OPEN_TEMPORARY_FILE_H''},
          emitted = begin_extern_c # function_declarations php_open_temporary_file_h
                      @ [end_extern_c] \<rparr>"
  by (simp add: include_guarded [OF guarded_php_open_temporary_file_h])
     (simp add: function_declarations_def header_defs kind_defs)

text \<open>
  C9. Both headers are wrapped in their include guard, \<^verbatim>\<open>PACK_H\<close> and
  \<^verbatim>\<open>PHP_OPEN_TEMPORARY_FILE_H\<close>, and inclusion is idempotent: from any state \<open>s\<close> of
  a translation unit the first inclusion succeeds with a state \<open>s1\<close>, and
  including the same header again returns \<open>s1\<close> unchanged, so nothing more is
  passed on.  More generally, inclusion changes nothing in any state in which
  the guard is defined.
\<close>

theorem inclusion_idempotent:
  "guarded ''PACK_H'' pack_h
   \<and> guarded ''PHP_OPEN_TEMPORARY_FILE_H'' php_open_temporary_file_h
   \<and> (\<exists>s1. include_header pack_h s = Inr s1 \<and> include_header pack_h s1 = Inr s1)
   \<and> (\<exists>s1. include_header php_open_temporary_file_h s = Inr s1
          \<and> include_header php_open_temporary_file_h s1 = Inr s1)
   \<and> include_header pack_h (s\<lparr>macros := insert ''PACK_H'' (macros s)\<rparr>)
        = Inr (s\<lparr>macros := insert ''PACK_H'' (macros s)\<rparr>)
   \<and> include_header php_open_temporary_file_h
          (s\<lparr>macros := insert ''PHP_OPEN_TEMPORARY_FILE_H'' (macros s)\<rparr>)
        = Inr (s\<lparr>macros := insert ''PHP_OPEN_TEMPORARY_FILE_H'' (macros s)\<rparr>)"
proof -
  note p = include_guarded [OF guarded_pack_h]
  note t = include_guarded [OF guarded_php_open_temporary_file_h]
  have "\<exists>s1. include_header pack_h s = Inr s1 \<and> include_header pack_h s1 = Inr s1"
    by (simp add: p)
  moreover have "\<exists>s1. include_header php_open_temporary_file_h s = Inr s1
      \<and> include_header php_open_temporary_file_h s1 = Inr s1"
    by (simp add: t)
  moreover have "include_header pack_h (s\<lparr>macros := insert ''PACK_H'' (macros s)\<rparr>)
        = Inr (s\<lparr>macros := insert ''PACK_H'' (macros s)\<rparr>)"
    by (simp add: p)
  moreover have "include_header php_open_temporary_file_h
          (s\<lparr>macros := insert ''PHP_OPEN_TEMPORARY_FILE_H'' (macros s)\<rparr>)
        = Inr (s\<lparr>macros := insert ''PHP_OPEN_TEMPORARY_FILE_H'' (macros s)\<rparr>)"
    by (simp add: t)
  ultimately show ?thesis
    using guarded_pack_h guarded_php_open_temporary_file_h by blast
qed

end
